theory Spec2Isabelle
  imports Complex_Main "HOL-Library.Sublist"
begin

section \<open>Python values used by \<open>app.py\<close>\<close>

text \<open>
  A Python \<open>str\<close> is a sequence of Unicode code points, so it is modelled as a list of
  natural numbers; \<open>py\<close> embeds an ASCII literal. The prompt, the page icon and one sample
  contain code points beyond ASCII, which are written as numbers.
\<close>

type_synonym pystr = "nat list"

definition py :: "string \<Rightarrow> pystr" where
  "py s = map of_char s"

text \<open>
  \<open>str.isspace\<close> for one code point, the test \<open>str.strip()\<close> applies at both ends:
  the ASCII controls 9 to 13 and 28 to 31, the space, and the Unicode white space
  U+0085, U+00A0, U+1680, U+2000 to U+200A, U+2028, U+2029, U+202F, U+205F, U+3000.
\<close>

definition isspace :: "nat \<Rightarrow> bool" where
  "isspace c \<longleftrightarrow>
     (9 \<le> c \<and> c \<le> 13) \<or> (28 \<le> c \<and> c \<le> 32) \<or> c = 133 \<or> c = 160 \<or> c = 5760 \<or>
     (8192 \<le> c \<and> c \<le> 8202) \<or> c = 8232 \<or> c = 8233 \<or> c = 8239 \<or> c = 8287 \<or> c = 12288"

definition strip :: "pystr \<Rightarrow> pystr" where
  "strip s = rev (dropWhile isspace (rev (dropWhile isspace s)))"

text \<open>
  The value \<open>json.loads\<close> returns. A \<open>dict\<close> is given by its items (the keys are
  distinct after parsing); a float is a finite rational, an infinity or NaN, all of which
  \<open>json.loads\<close> accepts.
\<close>

datatype pyfloat = Finite rat | PosInf | NegInf | NaN

datatype json =
    JNull
  | JBool bool
  | JInt int
  | JFloat pyfloat
  | JStr pystr
  | JArr "json list"
  | JObj "(pystr \<times> json) list"

text \<open>Python truth value testing, as \<open>if x\<close> and \<open>not x\<close> apply it.\<close>

fun truthy :: "json \<Rightarrow> bool" where
  "truthy JNull = False"
| "truthy (JBool b) = b"
| "truthy (JInt i) = (i \<noteq> 0)"
| "truthy (JFloat f) = (f \<noteq> Finite 0)"
| "truthy (JStr s) = (s \<noteq> [])"
| "truthy (JArr xs) = (xs \<noteq> [])"
| "truthy (JObj kvs) = (kvs \<noteq> [])"

fun type_name :: "json \<Rightarrow> pystr" where
  "type_name JNull = py ''NoneType''"
| "type_name (JBool b) = py ''bool''"
| "type_name (JInt i) = py ''int''"
| "type_name (JFloat f) = py ''float''"
| "type_name (JStr s) = py ''str''"
| "type_name (JArr xs) = py ''list''"
| "type_name (JObj kvs) = py ''dict''"

text \<open>
  The exceptions the \<open>try\<close> block of \<open>bedrock_llama_response\<close> distinguishes:
  botocore's \<open>ClientError\<close>, whose \<open>response['Error']\<close> carries \<open>Code\<close> and
  \<open>Message\<close> (botocore's response parsers fill both), and any other \<open>Exception\<close>,
  of which only \<open>str(e)\<close> is read.
\<close>

datatype exn = ClientError pystr pystr | OtherException pystr

text \<open>The message of the \<open>AttributeError\<close> raised by \<open>v.attr\<close> on a value without it.\<close>

definition attribute_error :: "json \<Rightarrow> string \<Rightarrow> exn" where
  "attribute_error v attr =
     OtherException ([39] @ type_name v @ [39] @ py '' object has no attribute '' @
                     [39] @ py attr @ [39])"

section \<open>The outside world\<close>

text \<open>
  The body passed to \<open>invoke_model\<close> is \<open>json.dumps\<close> of a dict with four entries; the
  model keeps the dict. \<open>temperature\<close> and \<open>top_p\<close> hold the decimal literals of the
  source, which \<open>json.dumps\<close> writes back as \<open>0.2\<close> and \<open>0.95\<close>.
\<close>

record payload =
  prompt :: pystr
  max_gen_len :: int
  temperature :: rat
  top_p :: rat

record request =
  body :: payload
  modelId :: pystr
  accept :: pystr
  contentType :: pystr

text \<open>
  What one call \<open>client.invoke_model(...)\<close> followed by
  \<open>json.loads(response.get('body').read())\<close> does: it raises, or it yields the parsed
  body. A failure to read or to parse the body is an \<open>OtherException\<close>.
\<close>

datatype reply = Raises exn | Body json

type_synonym client = "request \<Rightarrow> reply"

text \<open>
  The process environment after \<open>load_dotenv()\<close>, and
  \<open>boto3.Session(...).client('bedrock-runtime')\<close>, which yields a client or raises an
  exception with a message.
\<close>

record world =
  environ :: "pystr \<rightharpoonup> pystr"
  boto3_client :: "pystr option \<Rightarrow> pystr option \<Rightarrow> pystr option \<Rightarrow> pystr + client"

definition getenv :: "world \<Rightarrow> string \<Rightarrow> pystr option" where
  "getenv w name = environ w (py name)"

text \<open>Truth value of what \<open>os.getenv\<close> returns: \<open>None\<close> and \<open>""\<close> are false.\<close>

fun truthy_opt :: "pystr option \<Rightarrow> bool" where
  "truthy_opt None = False"
| "truthy_opt (Some s) = (s \<noteq> [])"

text \<open>
  What the user did before this run of the script: the content of the text area, and for
  each button label whether that button was pressed.
\<close>

record ui_input =
  statement :: pystr
  pressed :: "pystr \<Rightarrow> bool"

text \<open>The Streamlit calls of the script that put something on the page.\<close>

datatype ui_event =
    PageConfig pystr pystr
  | Title pystr
  | Write pystr
  | TextArea pystr
  | Button pystr
  | Spinner pystr
  | Subheader pystr
  | Code pystr pystr
  | Warning pystr
  | Error pystr
  | Markdown pystr
  | SampleTextArea pystr pystr

text \<open>
  The effects of a run, in order: the page (\<open>shown\<close>), the calls of \<open>invoke_model\<close>
  (\<open>sent\<close>), and, as a ghost field, the arguments with which
  \<open>bedrock_llama_response\<close> was entered (\<open>invoked\<close>).
\<close>

record app_state =
  shown :: "ui_event list"
  sent :: "request list"
  invoked :: "pystr list"

definition init_state :: app_state where
  "init_state = \<lparr>shown = [], sent = [], invoked = []\<rparr>"

definition st :: "ui_event \<Rightarrow> app_state \<Rightarrow> app_state" where
  "st e s = s\<lparr>shown := shown s @ [e]\<rparr>"

text \<open>
  \<open>st.stop()\<close> raises Streamlit's \<open>StopException\<close>, which is not an \<open>Exception\<close> and
  ends the run of the script: a function returns a value or stops the run.
\<close>

datatype 'a ctl = Return 'a | Stop

section \<open>The program\<close>

subsection \<open>\<open>initialize_bedrock_client\<close>\<close>

definition credentials_error :: pystr where
  "credentials_error =
     py ''AWS credentials or region not found. Please set them in your environment or .env file.''"

definition initialize_bedrock_client :: "world \<Rightarrow> app_state \<Rightarrow> client ctl \<times> app_state" where
  "initialize_bedrock_client w s =
     (let aws_access_key_id = getenv w ''AWS_ACCESS_KEY_ID'';
          aws_secret_access_key = getenv w ''AWS_SECRET_ACCESS_KEY'';
          aws_region = getenv w ''AWS_REGION''
      in if \<not> list_all truthy_opt [aws_access_key_id, aws_secret_access_key, aws_region]
         then (Stop, st (Error credentials_error) s)
         else (case boto3_client w aws_access_key_id aws_secret_access_key aws_region of
                 Inr client \<Rightarrow> (Return client, s)
               | Inl e \<Rightarrow>
                   (Stop, st (Error (py ''Failed to initialize AWS Bedrock client: '' @ e)) s)))"

subsection \<open>\<open>bedrock_llama_response\<close>\<close>

text \<open>The f-string of the source: the text before and after \<open>{informal_statement}\<close>.\<close>

definition prompt_head :: pystr where
  "prompt_head =
     py ''As an expert in mathematical theorem formalization, your task is to convert the given informal mathematical statement into a formal theorem statement in Lean. Follow these guidelines:\<newline>\<newline>'' @
     py ''1. Use proper Lean syntax and notation.\<newline>'' @
     py ''2. Include appropriate type declarations for variables.\<newline>'' @
     py ''3. Use Unicode characters for mathematical symbols where applicable.\<newline>'' @
     py ''4. Structure the theorem statement logically, using implications ('' @ [8594] @
     py '') or biconditionals ('' @ [8596] @ py '') as needed.\<newline>'' @
     py ''5. If the statement involves multiple conditions or parts, use appropriate logical connectives ('' @
     [8743] @ py '', '' @ [8744] @ py '', '' @ [172] @ py '').\<newline>'' @
     py ''6. For statements about sets or types, use appropriate quantifiers ('' @ [8704] @
     py '', '' @ [8707] @ py '') and set notation.\<newline>'' @
     py ''7. If the statement involves specific mathematical concepts (e.g., primality, divisibility), use the corresponding Lean functions or definitions.\<newline>\<newline>'' @
     py ''Informal statement: ''"

definition prompt_tail :: pystr where
  "prompt_tail = py ''\<newline>\<newline>Formal Lean theorem:''"

definition build_prompt :: "pystr \<Rightarrow> pystr" where
  "build_prompt informal_statement = prompt_head @ informal_statement @ prompt_tail"

definition build_request :: "pystr \<Rightarrow> pystr \<Rightarrow> request" where
  "build_request model_id informal_statement =
     \<lparr>body = \<lparr>prompt = build_prompt informal_statement, max_gen_len = 300,
               temperature = 2 / 10, top_p = 95 / 100\<rparr>,
      modelId = model_id,
      accept = py ''application/json'',
      contentType = py ''application/json''\<rparr>"

definition sentinel :: pystr where
  "sentinel = py ''Conversion failed.''"

text \<open>
  \<open>response_body.get('generation')\<close>: the value under the key, \<open>None\<close> when a dict has
  no such key, an \<open>AttributeError\<close> when the body is not a dict.
\<close>

definition get_generation :: "json \<Rightarrow> exn + json" where
  "get_generation response_body =
     (case response_body of
        JObj kvs \<Rightarrow>
          (case map_of kvs (py ''generation'') of None \<Rightarrow> Inr JNull | Some v \<Rightarrow> Inr v)
      | other \<Rightarrow> Inl (attribute_error other ''get''))"

text \<open>
  \<open>formal_statement.strip() if formal_statement else "Conversion failed."\<close>: the truth
  value of the field is tested before anything is stripped, and only a \<open>str\<close> has
  \<open>strip\<close>.
\<close>

definition strip_or_sentinel :: "json \<Rightarrow> exn + pystr" where
  "strip_or_sentinel formal_statement =
     (if truthy formal_statement
      then (case formal_statement of
              JStr s \<Rightarrow> Inr (strip s)
            | other \<Rightarrow> Inl (attribute_error other ''strip''))
      else Inr sentinel)"

text \<open>The \<open>try\<close> block after the request is built: the call and the reading of its result.\<close>

definition try_block :: "client \<Rightarrow> request \<Rightarrow> exn + pystr" where
  "try_block client req =
     (case client req of
        Raises e \<Rightarrow> Inl e
      | Body response_body \<Rightarrow>
          (case get_generation response_body of
             Inl e \<Rightarrow> Inl e
           | Inr formal_statement \<Rightarrow> strip_or_sentinel formal_statement))"

definition model_id_error :: pystr where
  "model_id_error =
     py ''BEDROCK_MODEL_ID not found. Please set it in your environment or .env file.''"

definition bedrock_llama_response ::
    "world \<Rightarrow> client \<Rightarrow> pystr \<Rightarrow> app_state \<Rightarrow> pystr option ctl \<times> app_state" where
  "bedrock_llama_response w client informal_statement s0 =
     (let s = s0\<lparr>invoked := invoked s0 @ [informal_statement]\<rparr> in
      case getenv w ''BEDROCK_MODEL_ID'' of
        None \<Rightarrow> (Stop, st (Error model_id_error) s)
      | Some model_id \<Rightarrow>
          if model_id = [] then (Stop, st (Error model_id_error) s)
          else
            (let req = build_request model_id informal_statement;
                 s1 = s\<lparr>sent := sent s @ [req]\<rparr>
             in case try_block client req of
                  Inr formal_statement \<Rightarrow> (Return (Some formal_statement), s1)
                | Inl (ClientError error_code error_message) \<Rightarrow>
                    (Return None,
                     st (Error (py ''AWS Bedrock API error: '' @ error_code @ py '' - '' @
                                error_message)) s1)
                | Inl (OtherException msg) \<Rightarrow>
                    (Return None,
                     st (Error (py ''An error occurred while calling the AWS Bedrock API: '' @
                                msg)) s1)))"

subsection \<open>\<open>main\<close>\<close>

definition samples :: "pystr list" where
  "samples =
     [py ''The golden ratio is irrational.'',
      py ''There are no perfect squares strictly between m'' @ [178] @ py '' and (m+1)'' @ [178],
      py ''The only numbers with empty prime factorization are 0 and 1'',
      py ''Odd Bernoulli numbers (greater than 1) are zero.'',
      py ''A natural number is odd iff it has residue 1 or 3 mod 4'']"

text \<open>The loop over the samples: a button each, and a text area under a pressed one.\<close>

fun sample_buttons :: "ui_input \<Rightarrow> pystr list \<Rightarrow> app_state \<Rightarrow> app_state" where
  "sample_buttons inp [] s = s"
| "sample_buttons inp (sample # rest) s =
     (let label = py ''Try: '' @ sample; s1 = st (Button label) s
      in sample_buttons inp rest
           (if pressed inp label
            then st (SampleTextArea (py ''Informal statement:'') sample) s1 else s1))"

text \<open>The body of \<open>if st.button("Convert")\<close>.\<close>

definition convert_pressed :: "world \<Rightarrow> client \<Rightarrow> pystr \<Rightarrow> app_state \<Rightarrow> unit ctl \<times> app_state" where
  "convert_pressed w client informal_statement s =
     (if informal_statement \<noteq> []
      then (case bedrock_llama_response w client informal_statement
                   (st (Spinner (py ''Converting...'')) s) of
              (Stop, s1) \<Rightarrow> (Stop, s1)
            | (Return None, s1) \<Rightarrow> (Return (), s1)
            | (Return (Some formal_statement), s1) \<Rightarrow>
                if formal_statement \<noteq> []
                then (Return (),
                      st (Code formal_statement (py ''lean''))
                         (st (Subheader (py ''Formal Theorem Statement:'')) s1))
                else (Return (), s1))
      else (Return (),
            st (Warning (py ''Please enter a mathematical statement to convert.'')) s))"

definition page_header :: "app_state \<Rightarrow> app_state" where
  "page_header s =
     st (Write (py ''This app converts informal mathematical statements to formal theorem statements in Lean using AWS Bedrock'' @ [39] @ py ''s Llama model.''))
       (st (Title (py ''Informal to Formal Math Theorem Converter''))
          (st (PageConfig (py ''Math Theorem Converter (AWS Bedrock)'') [129518]) s))"

definition page_footer :: "ui_input \<Rightarrow> app_state \<Rightarrow> app_state" where
  "page_footer inp s =
     sample_buttons inp samples
       (st (Subheader (py ''Sample Inputs:'')) (st (Markdown (py ''---'')) s))"

definition page_form :: "app_state \<Rightarrow> app_state" where
  "page_form s =
     st (Button (py ''Convert'')) (st (TextArea (py ''Enter informal mathematical statement:'')) s)"

definition main :: "world \<Rightarrow> ui_input \<Rightarrow> unit ctl \<times> app_state" where
  "main w inp =
     (case initialize_bedrock_client w (page_header init_state) of
        (Stop, s) \<Rightarrow> (Stop, s)
      | (Return client, s) \<Rightarrow>
          (let informal_statement = statement inp;
               s1 = page_form s
           in case (if pressed inp (py ''Convert'')
                    then convert_pressed w client informal_statement s1
                    else (Return (), s1)) of
                (Stop, s2) \<Rightarrow> (Stop, s2)
              | (Return u, s2) \<Rightarrow> (Return (), page_footer inp s2)))"

section \<open>What a run leaves behind\<close>

text \<open>
  The failures reported (\<open>st.error\<close>), the results rendered (\<open>st.code\<close>) and the
  warnings (\<open>st.warning\<close>) of a run, each in page order.
\<close>

fun error_of :: "ui_event \<Rightarrow> pystr option" where
  "error_of (Error msg) = Some msg"
| "error_of e = None"

fun code_of :: "ui_event \<Rightarrow> pystr option" where
  "code_of (Code text lang) = Some text"
| "code_of e = None"

fun warning_of :: "ui_event \<Rightarrow> pystr option" where
  "warning_of (Warning msg) = Some msg"
| "warning_of e = None"

definition errors :: "app_state \<Rightarrow> pystr list" where
  "errors s = List.map_filter error_of (shown s)"

definition rendered :: "app_state \<Rightarrow> pystr list" where
  "rendered s = List.map_filter code_of (shown s)"

definition warnings :: "app_state \<Rightarrow> pystr list" where
  "warnings s = List.map_filter warning_of (shown s)"

text \<open>
  The start of \<open>main\<close> gets past \<open>initialize_bedrock_client\<close> with \<open>client\<close>: the
  three credentials are set and not empty, and boto3 builds the client.
\<close>

definition startup_ok :: "world \<Rightarrow> client \<Rightarrow> bool" where
  "startup_ok w client \<longleftrightarrow>
     truthy_opt (getenv w ''AWS_ACCESS_KEY_ID'') \<and>
     truthy_opt (getenv w ''AWS_SECRET_ACCESS_KEY'') \<and>
     truthy_opt (getenv w ''AWS_REGION'') \<and>
     boto3_client w (getenv w ''AWS_ACCESS_KEY_ID'') (getenv w ''AWS_SECRET_ACCESS_KEY'')
       (getenv w ''AWS_REGION'') = Inr client"

text \<open>\<open>BEDROCK_MODEL_ID\<close> is set to the non-empty string \<open>m\<close>.\<close>

definition model_configured :: "world \<Rightarrow> pystr \<Rightarrow> bool" where
  "model_configured w m \<longleftrightarrow> getenv w ''BEDROCK_MODEL_ID'' = Some m \<and> m \<noteq> []"

section \<open>The template as the specification words it\<close>

text \<open>
  Section 6 of the specification gives the prompt as a template; this is its text, line
  by line, without the indentation of the block it is quoted in. It is used only to compare
  it with \<open>build_prompt\<close>.
\<close>

definition spec_template_head :: pystr where
  "spec_template_head =
     py ''As an expert in mathematical theorem formalization, your task is to convert\<newline>'' @
     py ''the given informal mathematical statement into a formal theorem statement\<newline>'' @
     py ''in Lean. Follow these guidelines:\<newline>'' @
     py ''1. Use proper Lean syntax and notation.\<newline>'' @
     py ''2. Include appropriate type declarations for variables.\<newline>'' @
     py ''3. Use Unicode characters for mathematical symbols where applicable.\<newline>'' @
     py ''4. Structure the theorem statement logically, using implications ('' @ [8594] @
     py '') or\<newline>   biconditionals ('' @ [8596] @ py '') as needed.\<newline>'' @
     py ''5. If the statement involves multiple conditions or parts, use appropriate\<newline>'' @
     py ''   logical connectives ('' @ [8743] @ py '', '' @ [8744] @ py '', '' @ [172] @
     py '').\<newline>'' @
     py ''6. For statements about sets or types, use appropriate quantifiers\<newline>   ('' @
     [8704] @ py '', '' @ [8707] @ py '') and set notation.\<newline>'' @
     py ''7. If the statement involves specific mathematical concepts (e.g.,\<newline>'' @
     py ''   primality, divisibility), use the corresponding functions or definitions.\<newline>\<newline>'' @
     py ''Informal statement: ''"

definition spec_template_tail :: pystr where
  "spec_template_tail = py ''\<newline>\<newline>Formal theorem:''"

definition spec_template :: "pystr \<Rightarrow> pystr" where
  "spec_template s = spec_template_head @ s @ spec_template_tail"

section \<open>Concrete worlds and inputs\<close>

text \<open>
  A fully configured environment, the same without a model identifier or with an empty
  region, clients that answer with a fixed body or raise a fixed exception, and two user
  actions: pressing Convert on a statement, and doing nothing.
\<close>

definition demo_env :: "pystr \<rightharpoonup> pystr" where
  "demo_env =
     [py ''AWS_ACCESS_KEY_ID'' \<mapsto> py ''AKIDEXAMPLE'',
      py ''AWS_SECRET_ACCESS_KEY'' \<mapsto> py ''secret'',
      py ''AWS_REGION'' \<mapsto> py ''us-east-1'',
      py ''BEDROCK_MODEL_ID'' \<mapsto> py ''meta.llama3-8b-instruct-v1:0'']"

definition demo_world :: "client \<Rightarrow> world" where
  "demo_world c = \<lparr>environ = demo_env, boto3_client = (\<lambda>k sk r. Inr c)\<rparr>"

definition no_model_world :: "client \<Rightarrow> world" where
  "no_model_world c =
     \<lparr>environ = demo_env(py ''BEDROCK_MODEL_ID'' := None), boto3_client = (\<lambda>k sk r. Inr c)\<rparr>"

definition no_region_world :: "client \<Rightarrow> world" where
  "no_region_world c =
     \<lparr>environ = demo_env(py ''AWS_REGION'' \<mapsto> []), boto3_client = (\<lambda>k sk r. Inr c)\<rparr>"

definition answering :: "json \<Rightarrow> client" where
  "answering response_body = (\<lambda>req. Body response_body)"

definition failing :: "exn \<Rightarrow> client" where
  "failing e = (\<lambda>req. Raises e)"

definition generation :: "pystr \<Rightarrow> json" where
  "generation g = JObj [(py ''generation'', JStr g)]"

definition submit :: "pystr \<Rightarrow> ui_input" where
  "submit s = \<lparr>statement = s, pressed = (\<lambda>label. label = py ''Convert'')\<rparr>"

definition idle :: ui_input where
  "idle = \<lparr>statement = [], pressed = (\<lambda>label. False)\<rparr>"

section \<open>Strings\<close>

lemma py_Cons_nonempty: "py (c # cs) \<noteq> []"
  by (simp add: py_def)

lemma strip_ends: "strip s = [] \<or> (\<not> isspace (hd (strip s)) \<and> \<not> isspace (last (strip s)))"
proof (cases "strip s = []")
  case True then show ?thesis by simp
next
  case False
  define a where "a = dropWhile isspace s"
  define b where "b = dropWhile isspace (rev a)"
  have sb: "strip s = rev b" by (simp add: strip_def a_def b_def)
  with False have bne: "b \<noteq> []" by simp
  have "\<not> isspace (hd b)" using bne unfolding b_def by (rule hd_dropWhile)
  then have l: "\<not> isspace (last (strip s))" using bne by (simp add: sb last_rev)
  have "rev a = takeWhile isspace (rev a) @ b" by (simp add: b_def)
  then have "rev (rev a) = rev (takeWhile isspace (rev a) @ b)" by simp
  then have a: "a = rev b @ rev (takeWhile isspace (rev a))" by simp
  then have ane: "a \<noteq> []" using bne by auto
  have "hd a = hd (rev b)" using bne by (subst a) simp
  moreover have "\<not> isspace (hd a)" using ane unfolding a_def by (rule hd_dropWhile)
  ultimately show ?thesis using l by (simp add: sb)
qed

lemma strip_decomp:
  "\<exists>l t. s = l @ strip s @ t \<and> list_all isspace l \<and> list_all isspace t"
proof -
  define a where "a = dropWhile isspace s"
  define b where "b = dropWhile isspace (rev a)"
  have sb: "strip s = rev b" by (simp add: strip_def a_def b_def)
  have "rev a = takeWhile isspace (rev a) @ b" by (simp add: b_def)
  then have "rev (rev a) = rev (takeWhile isspace (rev a) @ b)" by simp
  then have a: "a = rev b @ rev (takeWhile isspace (rev a))" by simp
  have "s = takeWhile isspace s @ a" by (simp add: a_def)
  then have "s = takeWhile isspace s @ strip s @ rev (takeWhile isspace (rev a))"
    using a sb by simp
  moreover have "list_all isspace (takeWhile isspace s)"
    by (simp add: list_all_iff) (meson set_takeWhileD)
  moreover have "list_all isspace (rev (takeWhile isspace (rev a)))"
    by (simp add: list_all_iff) (meson set_takeWhileD)
  ultimately show ?thesis by blast
qed

lemma strip_all_space: "list_all isspace s \<Longrightarrow> strip s = []"
  by (auto simp: strip_def list_all_iff dest: set_dropWhileD)

lemma sentinel_ends: "sentinel \<noteq> [] \<and> \<not> isspace (hd sentinel) \<and> \<not> isspace (last sentinel)"
  by (simp add: sentinel_def py_def isspace_def)

section \<open>State bookkeeping\<close>

lemma st_fields [simp]:
  "shown (st e s) = shown s @ [e]" "sent (st e s) = sent s" "invoked (st e s) = invoked s"
  by (simp_all add: st_def)

lemma map_filter_snoc:
  "List.map_filter f (xs @ [x]) =
     List.map_filter f xs @ (case f x of None \<Rightarrow> [] | Some y \<Rightarrow> [y])"
  by (simp add: List.map_filter_def split: option.splits)

lemma observed_st:
  "errors (st e s) = errors s @ (case error_of e of None \<Rightarrow> [] | Some y \<Rightarrow> [y])"
  "rendered (st e s) = rendered s @ (case code_of e of None \<Rightarrow> [] | Some y \<Rightarrow> [y])"
  "warnings (st e s) = warnings s @ (case warning_of e of None \<Rightarrow> [] | Some y \<Rightarrow> [y])"
  by (simp_all add: errors_def rendered_def warnings_def map_filter_snoc)

lemma observed_update [simp]:
  "errors (s\<lparr>sent := q\<rparr>) = errors s" "errors (s\<lparr>invoked := i\<rparr>) = errors s"
  "rendered (s\<lparr>sent := q\<rparr>) = rendered s" "rendered (s\<lparr>invoked := i\<rparr>) = rendered s"
  "warnings (s\<lparr>sent := q\<rparr>) = warnings s" "warnings (s\<lparr>invoked := i\<rparr>) = warnings s"
  by (simp_all add: errors_def rendered_def warnings_def)

lemma sample_buttons_keeps:
  "sent (sample_buttons inp xs s) = sent s"
  "invoked (sample_buttons inp xs s) = invoked s"
  "errors (sample_buttons inp xs s) = errors s"
  "rendered (sample_buttons inp xs s) = rendered s"
  "warnings (sample_buttons inp xs s) = warnings s"
  by (induction xs arbitrary: s; simp add: Let_def observed_st)+

lemma page_footer_keeps [simp]:
  "sent (page_footer inp s) = sent s"
  "invoked (page_footer inp s) = invoked s"
  "errors (page_footer inp s) = errors s"
  "rendered (page_footer inp s) = rendered s"
  "warnings (page_footer inp s) = warnings s"
  by (simp_all add: page_footer_def sample_buttons_keeps observed_st)

lemma page_form_keeps [simp]:
  "sent (page_form s) = sent s"
  "invoked (page_form s) = invoked s"
  "errors (page_form s) = errors s"
  "rendered (page_form s) = rendered s"
  "warnings (page_form s) = warnings s"
  by (simp_all add: page_form_def observed_st)

lemma page_header_init [simp]:
  "sent (page_header init_state) = []"
  "invoked (page_header init_state) = []"
  "errors (page_header init_state) = []"
  "rendered (page_header init_state) = []"
  "warnings (page_header init_state) = []"
  by (simp_all add: page_header_def observed_st)
     (simp_all add: init_state_def errors_def rendered_def warnings_def List.map_filter_def)

section \<open>The functions, case by case\<close>

lemma initialize_keeps:
  "sent (snd (initialize_bedrock_client w s)) = sent s"
  "invoked (snd (initialize_bedrock_client w s)) = invoked s"
  by (simp_all add: initialize_bedrock_client_def Let_def split: sum.splits)

lemma initialize_missing:
  assumes "\<not> (truthy_opt (getenv w ''AWS_ACCESS_KEY_ID'') \<and>
              truthy_opt (getenv w ''AWS_SECRET_ACCESS_KEY'') \<and>
              truthy_opt (getenv w ''AWS_REGION''))"
  shows "initialize_bedrock_client w s = (Stop, st (Error credentials_error) s)"
  using assms by (auto simp: initialize_bedrock_client_def Let_def)

lemma initialize_started:
  assumes "startup_ok w client"
  shows "initialize_bedrock_client w s = (Return client, s)"
  using assms by (simp add: initialize_bedrock_client_def startup_ok_def Let_def)

lemma initialize_fst_cases:
  "fst (initialize_bedrock_client w s) = Stop \<or>
   (\<exists>client. startup_ok w client \<and> fst (initialize_bedrock_client w s) = Return client)"
  by (auto simp: initialize_bedrock_client_def startup_ok_def Let_def split: sum.splits)

lemma blr_unconfigured:
  assumes "\<not> truthy_opt (getenv w ''BEDROCK_MODEL_ID'')"
  shows "bedrock_llama_response w client x s =
           (Stop, st (Error model_id_error) (s\<lparr>invoked := invoked s @ [x]\<rparr>))"
  using assms
  by (cases "getenv w ''BEDROCK_MODEL_ID''") (simp_all add: bedrock_llama_response_def)

lemma blr_configured:
  assumes "model_configured w m"
  shows "bedrock_llama_response w client x s =
           (case try_block client (build_request m x) of
              Inr r \<Rightarrow>
                (Return (Some r),
                 s\<lparr>invoked := invoked s @ [x], sent := sent s @ [build_request m x]\<rparr>)
            | Inl (ClientError code msg) \<Rightarrow>
                (Return None,
                 st (Error (py ''AWS Bedrock API error: '' @ code @ py '' - '' @ msg))
                   (s\<lparr>invoked := invoked s @ [x], sent := sent s @ [build_request m x]\<rparr>))
            | Inl (OtherException msg) \<Rightarrow>
                (Return None,
                 st (Error (py ''An error occurred while calling the AWS Bedrock API: '' @ msg))
                   (s\<lparr>invoked := invoked s @ [x], sent := sent s @ [build_request m x]\<rparr>)))"
  using assms
  by (simp add: model_configured_def bedrock_llama_response_def Let_def
           split: sum.splits exn.splits)

lemma blr_invoked:
  "invoked (snd (bedrock_llama_response w client x s)) = invoked s @ [x]"
  by (simp add: bedrock_llama_response_def Let_def split: option.splits sum.splits exn.splits)

lemma blr_sent_configured:
  assumes "model_configured w m"
  shows "sent (snd (bedrock_llama_response w client x s)) = sent s @ [build_request m x]"
  by (simp add: blr_configured [OF assms] split: sum.splits exn.splits)

lemma blr_sent_unconfigured:
  assumes "\<not> truthy_opt (getenv w ''BEDROCK_MODEL_ID'')"
  shows "sent (snd (bedrock_llama_response w client x s)) = sent s"
  by (simp add: blr_unconfigured [OF assms])

lemma blr_rendered:
  "rendered (snd (bedrock_llama_response w client x s)) = rendered s"
  by (simp add: bedrock_llama_response_def Let_def observed_st
           split: option.splits sum.splits exn.splits)

lemma convert_pressed_empty:
  "convert_pressed w client [] s =
     (Return (), st (Warning (py ''Please enter a mathematical statement to convert.'')) s)"
  by (simp add: convert_pressed_def)

lemma convert_pressed_nonempty:
  assumes "x \<noteq> []"
  shows "convert_pressed w client x s =
           (case bedrock_llama_response w client x (st (Spinner (py ''Converting...'')) s) of
              (Stop, s1) \<Rightarrow> (Stop, s1)
            | (Return None, s1) \<Rightarrow> (Return (), s1)
            | (Return (Some formal_statement), s1) \<Rightarrow>
                if formal_statement \<noteq> []
                then (Return (),
                      st (Code formal_statement (py ''lean''))
                         (st (Subheader (py ''Formal Theorem Statement:'')) s1))
                else (Return (), s1))"
  using assms by (simp add: convert_pressed_def)

lemma convert_pressed_sent:
  assumes "x \<noteq> []"
  shows "sent (snd (convert_pressed w client x s)) =
           sent (snd (bedrock_llama_response w client x (st (Spinner (py ''Converting...'')) s)))"
  by (simp add: convert_pressed_nonempty [OF assms] split: prod.splits ctl.splits option.splits)

lemma convert_pressed_invoked:
  assumes "x \<noteq> []"
  shows "invoked (snd (convert_pressed w client x s)) = invoked s @ [x]"
proof -
  have "invoked (snd (convert_pressed w client x s)) =
          invoked (snd (bedrock_llama_response w client x (st (Spinner (py ''Converting...'')) s)))"
    by (simp add: convert_pressed_nonempty [OF assms]
             split: prod.splits ctl.splits option.splits)
  then show ?thesis by (simp add: blr_invoked)
qed

lemma main_missing:
  assumes "\<not> (truthy_opt (getenv w ''AWS_ACCESS_KEY_ID'') \<and>
              truthy_opt (getenv w ''AWS_SECRET_ACCESS_KEY'') \<and>
              truthy_opt (getenv w ''AWS_REGION''))"
  shows "main w inp = (Stop, st (Error credentials_error) (page_header init_state))"
  by (simp add: main_def initialize_missing [OF assms])

lemma main_started:
  assumes "startup_ok w client"
  shows "main w inp =
           (case (if pressed inp (py ''Convert'')
                  then convert_pressed w client (statement inp) (page_form (page_header init_state))
                  else (Return (), page_form (page_header init_state))) of
              (Stop, s2) \<Rightarrow> (Stop, s2)
            | (Return u, s2) \<Rightarrow> (Return (), page_footer inp s2))"
  by (simp add: main_def initialize_started [OF assms] Let_def)

lemma main_stopped_at_start:
  assumes "fst (initialize_bedrock_client w (page_header init_state)) = Stop"
  shows "sent (snd (main w inp)) = []" "invoked (snd (main w inp)) = []"
proof -
  obtain s where i: "initialize_bedrock_client w (page_header init_state) = (Stop, s)"
    using assms by (cases "initialize_bedrock_client w (page_header init_state)") simp
  have "sent s = sent (page_header init_state)" "invoked s = invoked (page_header init_state)"
    using initialize_keeps [of w "page_header init_state"] i by simp_all
  then show "sent (snd (main w inp)) = []" "invoked (snd (main w inp)) = []"
    by (simp_all add: main_def i)
qed

lemma main_idle:
  assumes "startup_ok w client" and "\<not> pressed inp (py ''Convert'')"
  shows "main w inp = (Return (), page_footer inp (page_form (page_header init_state)))"
  using assms(2) by (simp add: main_started [OF assms(1)])

lemma main_empty:
  assumes "startup_ok w client" and "pressed inp (py ''Convert'')" and "statement inp = []"
  shows "main w inp =
           (Return (),
            page_footer inp
              (st (Warning (py ''Please enter a mathematical statement to convert.''))
                 (page_form (page_header init_state))))"
  using assms(2,3) by (simp add: main_started [OF assms(1)] convert_pressed_empty)

lemma main_sent_pressed:
  assumes "startup_ok w client" and "pressed inp (py ''Convert'')" and "statement inp \<noteq> []"
  shows "sent (snd (main w inp)) =
           sent (snd (bedrock_llama_response w client (statement inp)
                        (st (Spinner (py ''Converting...'')) (page_form (page_header init_state)))))"
proof -
  have "sent (snd (main w inp)) =
          sent (snd (convert_pressed w client (statement inp) (page_form (page_header init_state))))"
    using assms(2) by (simp add: main_started [OF assms(1)] split: prod.splits ctl.splits)
  then show ?thesis by (simp add: convert_pressed_sent [OF assms(3)])
qed

section \<open>The concrete worlds\<close>

lemma getenv_demo:
  "getenv (demo_world c) ''AWS_ACCESS_KEY_ID'' = Some (py ''AKIDEXAMPLE'')"
  "getenv (demo_world c) ''AWS_SECRET_ACCESS_KEY'' = Some (py ''secret'')"
  "getenv (demo_world c) ''AWS_REGION'' = Some (py ''us-east-1'')"
  "getenv (demo_world c) ''BEDROCK_MODEL_ID'' = Some (py ''meta.llama3-8b-instruct-v1:0'')"
  by (simp_all add: getenv_def demo_world_def demo_env_def py_def)

lemma getenv_no_model:
  "getenv (no_model_world c) ''AWS_ACCESS_KEY_ID'' = Some (py ''AKIDEXAMPLE'')"
  "getenv (no_model_world c) ''AWS_SECRET_ACCESS_KEY'' = Some (py ''secret'')"
  "getenv (no_model_world c) ''AWS_REGION'' = Some (py ''us-east-1'')"
  "getenv (no_model_world c) ''BEDROCK_MODEL_ID'' = None"
  by (simp_all add: getenv_def no_model_world_def demo_env_def py_def)

lemma getenv_no_region:
  "getenv (no_region_world c) ''AWS_REGION'' = Some []"
  by (simp add: getenv_def no_region_world_def)

lemma demo_started: "startup_ok (demo_world c) c"
  by (simp add: startup_ok_def getenv_demo py_Cons_nonempty) (simp add: demo_world_def)

lemma demo_configured: "model_configured (demo_world c) (py ''meta.llama3-8b-instruct-v1:0'')"
  by (simp add: model_configured_def getenv_demo py_Cons_nonempty)

lemma no_model_started: "startup_ok (no_model_world c) c"
  by (simp add: startup_ok_def getenv_no_model py_Cons_nonempty) (simp add: no_model_world_def)

lemma submit_fields:
  "statement (submit s) = s" "pressed (submit s) (py ''Convert'')"
  by (simp_all add: submit_def)

lemma idle_fields:
  "statement idle = []" "\<not> pressed idle label"
  by (simp_all add: idle_def)

lemma try_block_answering:
  "try_block (answering j) req =
     (case get_generation j of Inl e \<Rightarrow> Inl e | Inr v \<Rightarrow> strip_or_sentinel v)"
  by (simp add: try_block_def answering_def)

lemma get_generation_generation: "get_generation (generation g) = Inr (JStr g)"
  by (simp add: get_generation_def generation_def)

lemma tails_differ: "\<not> suffix spec_template_tail (ys @ prompt_tail)"
proof
  assume "suffix spec_template_tail (ys @ prompt_tail)"
  then have "suffix spec_template_tail prompt_tail \<or>
             (\<exists>xs. spec_template_tail = xs @ prompt_tail \<and> suffix xs ys)"
    by (simp add: suffix_append)
  moreover have "\<not> suffix spec_template_tail prompt_tail"
    by (simp add: suffix_to_prefix spec_template_tail_def prompt_tail_def py_def)
  moreover have "spec_template_tail \<noteq> xs @ prompt_tail" for xs
  proof
    assume "spec_template_tail = xs @ prompt_tail"
    then have "length spec_template_tail = length (xs @ prompt_tail)" by simp
    then show False by (simp add: spec_template_tail_def prompt_tail_def py_def)
  qed
  ultimately show False by auto
qed

section \<open>Reading the response\<close>

lemma try_block_generation_str:
  assumes "client req = Body (JObj kvs)"
    and "map_of kvs (py ''generation'') = Some (JStr g)"
  shows "try_block client req = Inr (if g \<noteq> [] then strip g else sentinel)"
  using assms by (simp add: try_block_def get_generation_def strip_or_sentinel_def)

lemma try_block_generation_absent:
  assumes "client req = Body (JObj kvs)"
    and "map_of kvs (py ''generation'') = None"
  shows "try_block client req = Inr sentinel"
  using assms by (simp add: try_block_def get_generation_def strip_or_sentinel_def)

lemma strip_or_sentinel_Inr:
  assumes "strip_or_sentinel v = Inr r"
  shows "r = sentinel \<or> (\<exists>g. v = JStr g \<and> g \<noteq> [] \<and> r = strip g)"
  using assms by (cases v) (auto simp: strip_or_sentinel_def split: if_splits)

lemma get_generation_Inr_str:
  assumes "get_generation j = Inr (JStr g)"
  shows "\<exists>kvs. j = JObj kvs \<and> map_of kvs (py ''generation'') = Some (JStr g)"
  using assms by (cases j) (auto simp: get_generation_def split: option.splits)

lemma try_block_Inr:
  assumes "try_block client req = Inr r"
  shows "r = sentinel \<or>
         (\<exists>kvs g. client req = Body (JObj kvs) \<and>
                  map_of kvs (py ''generation'') = Some (JStr g) \<and> g \<noteq> [] \<and> r = strip g)"
proof -
  obtain j where j: "client req = Body j"
    using assms by (cases "client req") (simp_all add: try_block_def)
  obtain v where v: "get_generation j = Inr v" and r: "strip_or_sentinel v = Inr r"
    using assms j by (cases "get_generation j") (simp_all add: try_block_def)
  from strip_or_sentinel_Inr [OF r] show ?thesis
  proof
    assume "r = sentinel" then show ?thesis by simp
  next
    assume "\<exists>g. v = JStr g \<and> g \<noteq> [] \<and> r = strip g"
    then obtain g where g: "v = JStr g" "g \<noteq> []" "r = strip g" by blast
    from v g(1) get_generation_Inr_str obtain kvs
      where "j = JObj kvs" "map_of kvs (py ''generation'') = Some (JStr g)" by blast
    with j g show ?thesis by blast
  qed
qed

lemma strip_empty_all_space:
  assumes "strip g = []"
  shows "list_all isspace g"
proof -
  obtain l t where "g = l @ strip g @ t" "list_all isspace l" "list_all isspace t"
    using strip_decomp [of g] by blast
  with assms have "g = l @ t" by simp
  with \<open>list_all isspace l\<close> \<open>list_all isspace t\<close> show ?thesis by simp
qed

text \<open>
  An absent \<open>generation\<close> and an empty one give the sentinel; the empty text is returned
  only for a \<open>generation\<close> that is not empty and all white space.
\<close>

lemma generation_absent_or_empty_gives_sentinel:
  assumes "model_configured w m"
    and "client (build_request m x) = Body (JObj kvs)"
    and "map_of kvs (py ''generation'') = None \<or> map_of kvs (py ''generation'') = Some (JStr [])"
  shows "fst (bedrock_llama_response w client x s) = Return (Some sentinel)"
proof -
  have "try_block client (build_request m x) = Inr sentinel"
    using assms(3) try_block_generation_absent [of client "build_request m x" kvs]
      try_block_generation_str [of client "build_request m x" kvs "[]"] assms(2)
    by auto
  then show ?thesis by (simp add: blr_configured [OF assms(1)])
qed

lemma empty_text_only_for_whitespace:
  assumes "bedrock_llama_response w client x s = (Return (Some []), s1)"
  shows "\<exists>req kvs g. client req = Body (JObj kvs) \<and>
                     map_of kvs (py ''generation'') = Some (JStr g) \<and>
                     g \<noteq> [] \<and> list_all isspace g"
proof -
  have "truthy_opt (getenv w ''BEDROCK_MODEL_ID'')"
  proof (rule ccontr)
    assume n: "\<not> truthy_opt (getenv w ''BEDROCK_MODEL_ID'')"
    from blr_unconfigured [OF n, of client x s] assms show False by simp
  qed
  then obtain m where "getenv w ''BEDROCK_MODEL_ID'' = Some m" "m \<noteq> []"
    by (cases "getenv w ''BEDROCK_MODEL_ID''") simp_all
  then have c: "model_configured w m" by (simp add: model_configured_def)
  have "try_block client (build_request m x) = Inr []"
    using assms by (simp add: blr_configured [OF c] split: sum.splits exn.splits)
  from try_block_Inr [OF this] sentinel_ends obtain kvs g where
    "client (build_request m x) = Body (JObj kvs)"
    "map_of kvs (py ''generation'') = Some (JStr g)" "g \<noteq> []" "strip g = []"
    by metis
  with strip_empty_all_space [of g] show ?thesis by blast
qed

section \<open>The outcome of a submission\<close>

text \<open>
  What a run shows for a pressed Convert with a statement, by the value
  \<open>bedrock_llama_response\<close> returns: text that is not empty is rendered, \<open>None\<close> and a
  stop leave the page as the function left it, and so does the empty text.
\<close>

lemma main_pressed_outcome:
  assumes "startup_ok w client" and "pressed inp (py ''Convert'')" and "statement inp \<noteq> []"
    and "bedrock_llama_response w client (statement inp)
           (st (Spinner (py ''Converting...'')) (page_form (page_header init_state))) = (r, s1)"
  shows "errors (snd (main w inp)) = errors s1 \<and>
         rendered (snd (main w inp)) =
           (case r of Return (Some text) \<Rightarrow> if text \<noteq> [] then [text] else [] | _ \<Rightarrow> [])"
proof -
  have "rendered s1 = []"
    using blr_rendered [of w client "statement inp"
        "st (Spinner (py ''Converting...'')) (page_form (page_header init_state))"] assms(4)
    by (simp add: observed_st)
  then show ?thesis
    using assms(2,3,4)
    by (simp add: main_started [OF assms(1)] convert_pressed_nonempty observed_st
          split: ctl.splits option.splits)
qed

lemma blr_errors_cases:
  assumes "bedrock_llama_response w client x s = (r, s1)"
  shows "(case r of Return (Some text) \<Rightarrow> errors s1 = errors s
          | _ \<Rightarrow> \<exists>e. errors s1 = errors s @ [e])"
  using assms
  by (auto simp: bedrock_llama_response_def Let_def observed_st
           split: option.splits sum.splits exn.splits if_splits)

text \<open>
  Apart from a returned empty text, a submission ends in exactly one of a rendered result
  and a reported failure.
\<close>

lemma submission_rendered_xor_reported:
  assumes "startup_ok w client" and "pressed inp (py ''Convert'')" and "statement inp \<noteq> []"
    and "fst (bedrock_llama_response w client (statement inp)
           (st (Spinner (py ''Converting...'')) (page_form (page_header init_state)))) \<noteq>
         Return (Some [])"
  shows "(rendered (snd (main w inp)) \<noteq> []) \<noteq> (errors (snd (main w inp)) \<noteq> [])"
proof -
  obtain r s1 where b: "bedrock_llama_response w client (statement inp)
           (st (Spinner (py ''Converting...'')) (page_form (page_header init_state))) = (r, s1)"
    by (cases "bedrock_llama_response w client (statement inp)
           (st (Spinner (py ''Converting...'')) (page_form (page_header init_state)))")
  have e0: "errors (st (Spinner (py ''Converting...'')) (page_form (page_header init_state))) = []"
    by (simp add: observed_st)
  from main_pressed_outcome [OF assms(1,2,3) b] blr_errors_cases [OF b] assms(4) b e0
  show ?thesis
    by (auto split: ctl.splits option.splits if_splits)
qed

section \<open>The claims\<close>

text \<open>
  C1 (as amended). For every non-empty statement \<open>s\<close>, when \<open>BEDROCK_MODEL_ID\<close> is set
  and not empty, \<open>bedrock_llama_response\<close> issues one request whose prompt is the
  template text of the source, then \<open>s\<close> verbatim, then the trailer of the source, which
  is two line feeds and \<open>Formal Lean theorem:\<close>.
\<close>

theorem C1_prompt_embeds_statement:
  assumes "s \<noteq> []" and "model_configured w m"
  shows "\<exists>req. sent (snd (bedrock_llama_response w client s s0)) = sent s0 @ [req] \<and>
               prompt (body req) = prompt_head @ s @ prompt_tail \<and>
               prompt_tail = py ''\<newline>\<newline>Formal Lean theorem:''"
  by (simp add: blr_sent_configured [OF assms(2)] build_request_def build_prompt_def
        prompt_tail_def)

theorem C1_prompt_embeds_statement_witness:
  "py ''x'' \<noteq> [] \<and>
   model_configured (demo_world (answering JNull)) (py ''meta.llama3-8b-instruct-v1:0'') \<and>
   (\<exists>req. sent (snd (bedrock_llama_response (demo_world (answering JNull)) (answering JNull)
                       (py ''x'') init_state)) = sent init_state @ [req] \<and>
          prompt (body req) = prompt_head @ py ''x'' @ prompt_tail \<and>
          prompt_tail = py ''\<newline>\<newline>Formal Lean theorem:'')"
proof -
  have h1: "py ''x'' \<noteq> []" by (rule py_Cons_nonempty)
  have h2: "model_configured (demo_world (answering JNull)) (py ''meta.llama3-8b-instruct-v1:0'')"
    by (rule demo_configured)
  show ?thesis
    using h1 h2 C1_prompt_embeds_statement [OF h1 h2, of "answering JNull" init_state]
    by blast
qed

text \<open>
  C1 as stated fails: with the model identifier configured, the request issued for the
  statement \<open>x\<close> does not carry the template of section 6 of the specification, and its
  prompt does not even end with the trailer given there; without a model identifier no
  request is issued at all.
\<close>

theorem C1_counterexample:
  "map (prompt \<circ> body)
     (sent (snd (bedrock_llama_response (demo_world (answering JNull)) (answering JNull)
                   (py ''x'') init_state))) \<noteq> [spec_template (py ''x'')] \<and>
   \<not> list_ex (suffix spec_template_tail \<circ> prompt \<circ> body)
     (sent (snd (bedrock_llama_response (demo_world (answering JNull)) (answering JNull)
                   (py ''x'') init_state))) \<and>
   sent (snd (bedrock_llama_response (no_model_world (answering JNull)) (answering JNull)
                (py ''x'') init_state)) = []"
proof -
  have s: "sent (snd (bedrock_llama_response (demo_world (answering JNull)) (answering JNull)
                   (py ''x'') init_state)) =
           [build_request (py ''meta.llama3-8b-instruct-v1:0'') (py ''x'')]"
    by (simp add: blr_sent_configured [OF demo_configured] init_state_def)
  have p: "prompt (body (build_request (py ''meta.llama3-8b-instruct-v1:0'') (py ''x''))) =
           (prompt_head @ py ''x'') @ prompt_tail"
    by (simp add: build_request_def build_prompt_def)
  have a: "\<not> suffix spec_template_tail ((prompt_head @ py ''x'') @ prompt_tail)"
    by (rule tails_differ)
  have "suffix spec_template_tail (spec_template (py ''x''))"
    by (simp add: spec_template_def suffix_def)
  with a have b: "(prompt_head @ py ''x'') @ prompt_tail \<noteq> spec_template (py ''x'')"
    by auto
  have c: "sent (snd (bedrock_llama_response (no_model_world (answering JNull))
                        (answering JNull) (py ''x'') init_state)) = []"
    by (simp add: blr_sent_unconfigured getenv_no_model init_state_def)
  show ?thesis using a b c by (simp add: s p)
qed

text \<open>
  C2 (as amended). The start of \<open>main\<close> reads the access key, the secret key and the
  region: if one of them is empty or absent the run stops there, with the credentials
  error on the page, before the form exists. The model identifier is read by
  \<open>bedrock_llama_response\<close> at each conversion: if it is empty or absent the conversion
  reports it and stops the run before the request. So whenever one of the four values is
  empty or absent, no run issues a request.
\<close>

theorem C2_missing_configuration_halts:
  "(\<not> (truthy_opt (getenv w ''AWS_ACCESS_KEY_ID'') \<and>
        truthy_opt (getenv w ''AWS_SECRET_ACCESS_KEY'') \<and>
        truthy_opt (getenv w ''AWS_REGION'')) \<longrightarrow>
      main w inp = (Stop, st (Error credentials_error) (page_header init_state))) \<and>
   (\<not> truthy_opt (getenv w ''BEDROCK_MODEL_ID'') \<longrightarrow>
      bedrock_llama_response w client x s =
        (Stop, st (Error model_id_error) (s\<lparr>invoked := invoked s @ [x]\<rparr>))) \<and>
   (\<not> (truthy_opt (getenv w ''AWS_ACCESS_KEY_ID'') \<and>
        truthy_opt (getenv w ''AWS_SECRET_ACCESS_KEY'') \<and>
        truthy_opt (getenv w ''AWS_REGION'') \<and>
        truthy_opt (getenv w ''BEDROCK_MODEL_ID'')) \<longrightarrow>
      sent (snd (main w inp)) = [])"
proof (intro conjI impI)
  assume "\<not> (truthy_opt (getenv w ''AWS_ACCESS_KEY_ID'') \<and>
              truthy_opt (getenv w ''AWS_SECRET_ACCESS_KEY'') \<and>
              truthy_opt (getenv w ''AWS_REGION''))"
  then show "main w inp = (Stop, st (Error credentials_error) (page_header init_state))"
    by (rule main_missing)
next
  assume "\<not> truthy_opt (getenv w ''BEDROCK_MODEL_ID'')"
  then show "bedrock_llama_response w client x s =
               (Stop, st (Error model_id_error) (s\<lparr>invoked := invoked s @ [x]\<rparr>))"
    by (rule blr_unconfigured)
next
  assume missing: "\<not> (truthy_opt (getenv w ''AWS_ACCESS_KEY_ID'') \<and>
                       truthy_opt (getenv w ''AWS_SECRET_ACCESS_KEY'') \<and>
                       truthy_opt (getenv w ''AWS_REGION'') \<and>
                       truthy_opt (getenv w ''BEDROCK_MODEL_ID''))"
  consider (stop) "fst (initialize_bedrock_client w (page_header init_state)) = Stop"
    | (go) c where "startup_ok w c"
    using initialize_fst_cases [of w "page_header init_state"] by blast
  then show "sent (snd (main w inp)) = []"
  proof cases
    case stop
    then show ?thesis by (rule main_stopped_at_start)
  next
    case go
    with missing have nomodel: "\<not> truthy_opt (getenv w ''BEDROCK_MODEL_ID'')"
      by (simp add: startup_ok_def)
    show ?thesis
    proof (cases "pressed inp (py ''Convert'')")
      case False
      then show ?thesis by (simp add: main_idle [OF go])
    next
      case True
      show ?thesis
      proof (cases "statement inp = []")
        case True
        with \<open>pressed inp (py ''Convert'')\<close> show ?thesis by (simp add: main_empty [OF go])
      next
        case False
        then show ?thesis
          by (simp add: main_sent_pressed [OF go True False] blr_sent_unconfigured [OF nomodel])
      qed
    qed
  qed
qed

theorem C2_missing_configuration_halts_witness:
  "main (no_region_world (answering JNull)) (submit (py ''x'')) =
     (Stop, st (Error credentials_error) (page_header init_state)) \<and>
   bedrock_llama_response (no_model_world (answering JNull)) (answering JNull) (py ''x'')
       init_state =
     (Stop, st (Error model_id_error) (init_state\<lparr>invoked := invoked init_state @ [py ''x'']\<rparr>)) \<and>
   sent (snd (main (no_model_world (answering JNull)) (submit (py ''x'')))) = []"
proof -
  have r: "\<not> (truthy_opt (getenv (no_region_world (answering JNull)) ''AWS_ACCESS_KEY_ID'') \<and>
              truthy_opt (getenv (no_region_world (answering JNull)) ''AWS_SECRET_ACCESS_KEY'') \<and>
              truthy_opt (getenv (no_region_world (answering JNull)) ''AWS_REGION''))"
    by (simp add: getenv_no_region)
  have m: "\<not> truthy_opt (getenv (no_model_world (answering JNull)) ''BEDROCK_MODEL_ID'')"
    by (simp add: getenv_no_model)
  show ?thesis
    using r m
      C2_missing_configuration_halts [of "no_region_world (answering JNull)" "submit (py ''x'')"]
      C2_missing_configuration_halts [of "no_model_world (answering JNull)" "submit (py ''x'')"
        "answering JNull" "py ''x''" init_state]
    by blast
qed

text \<open>
  C2 as stated fails: with the three credentials set and no model identifier, the start
  of the program does not halt. The run in which the user does nothing completes, and no
  error is on the page.
\<close>

theorem C2_counterexample:
  "getenv (no_model_world (answering JNull)) ''BEDROCK_MODEL_ID'' = None \<and>
   fst (main (no_model_world (answering JNull)) idle) = Return () \<and>
   errors (snd (main (no_model_world (answering JNull)) idle)) = []"
  by (simp add: getenv_no_model main_idle [OF no_model_started] idle_fields)

text \<open>
  C3: the code at a generation that is a single space. The truth value of the field is
  tested before it is stripped, so the result is the empty string and not the sentinel.
\<close>

theorem C3_whitespace_generation_not_sentinel:
  "fst (bedrock_llama_response (demo_world (answering (generation [32])))
          (answering (generation [32])) (py ''x'') init_state) = Return (Some []) \<and>
   sentinel \<noteq> []"
  by (simp add: blr_configured [OF demo_configured] try_block_answering
        get_generation_generation strip_or_sentinel_def strip_def isspace_def
        sentinel_def py_Cons_nonempty)

text \<open>
  C4. When the request was issued and the provider answered with a body whose
  \<open>generation\<close> is a string \<open>g\<close> that is not empty after stripping,
  \<open>bedrock_llama_response\<close> returns \<open>strip g\<close>: \<open>g\<close> without a prefix and a suffix
  of white space, starting and ending with a character that is not white space.
\<close>

theorem C4_generation_returned_stripped:
  assumes "model_configured w m"
    and "client (build_request m x) = Body (JObj kvs)"
    and "map_of kvs (py ''generation'') = Some (JStr g)"
    and "strip g \<noteq> []"
  shows "fst (bedrock_llama_response w client x s) = Return (Some (strip g)) \<and>
         (\<exists>l t. g = l @ strip g @ t \<and> list_all isspace l \<and> list_all isspace t) \<and>
         \<not> isspace (hd (strip g)) \<and> \<not> isspace (last (strip g))"
proof -
  have "g \<noteq> []" using assms(4) by (auto simp: strip_def)
  then have "try_block client (build_request m x) = Inr (strip g)"
    using try_block_generation_str [of client "build_request m x" kvs g] assms(2,3) by simp
  then have "fst (bedrock_llama_response w client x s) = Return (Some (strip g))"
    by (simp add: blr_configured [OF assms(1)])
  then show ?thesis using strip_decomp [of g] strip_ends [of g] assms(4) by simp
qed

theorem C4_generation_returned_stripped_witness:
  "strip (py ''  foo  '') = py ''foo'' \<and>
   fst (bedrock_llama_response (demo_world (answering (generation (py ''  foo  ''))))
          (answering (generation (py ''  foo  ''))) (py ''x'') init_state) =
     Return (Some (py ''foo''))"
proof -
  have s: "strip (py ''  foo  '') = py ''foo''"
    by (simp add: strip_def py_def isspace_def)
  have h2: "answering (generation (py ''  foo  ''))
              (build_request (py ''meta.llama3-8b-instruct-v1:0'') (py ''x'')) =
            Body (JObj [(py ''generation'', JStr (py ''  foo  ''))])"
    by (simp add: answering_def generation_def)
  have h3: "map_of [(py ''generation'', JStr (py ''  foo  ''))] (py ''generation'') =
            Some (JStr (py ''  foo  ''))"
    by simp
  have h4: "strip (py ''  foo  '') \<noteq> []"
    by (simp add: s py_Cons_nonempty)
  show ?thesis
    using C4_generation_returned_stripped
      [of "demo_world (answering (generation (py ''  foo  '')))"
          "py ''meta.llama3-8b-instruct-v1:0''" "answering (generation (py ''  foo  ''))"
          "py ''x''" "[(py ''generation'', JStr (py ''  foo  ''))]" "py ''  foo  ''" init_state,
       OF demo_configured h2 h3 h4] s
    by simp
qed

text \<open>
  C5. When the request was issued and the call raised a \<open>ClientError\<close> with a code and
  a message, \<open>bedrock_llama_response\<close> reports one error that carries both, and returns
  \<open>None\<close>. The run of \<open>main\<close> that made the call then completes: it shows that error,
  renders no result and does not stop, so the page with its form is there for the next
  submission.
\<close>

theorem C5_provider_error_reported:
  assumes "model_configured w m"
    and "client (build_request m x) = Raises (ClientError code msg)"
  shows "bedrock_llama_response w client x s =
           (Return None,
            st (Error (py ''AWS Bedrock API error: '' @ code @ py '' - '' @ msg))
              (s\<lparr>invoked := invoked s @ [x], sent := sent s @ [build_request m x]\<rparr>)) \<and>
         (startup_ok w client \<and> pressed inp (py ''Convert'') \<and> statement inp = x \<and> x \<noteq> [] \<longrightarrow>
            fst (main w inp) = Return () \<and>
            errors (snd (main w inp)) =
              [py ''AWS Bedrock API error: '' @ code @ py '' - '' @ msg] \<and>
            rendered (snd (main w inp)) = [])"
proof -
  have t: "try_block client (build_request m x) = Inl (ClientError code msg)"
    by (simp add: try_block_def assms(2))
  have b: "bedrock_llama_response w client x s =
             (Return None,
              st (Error (py ''AWS Bedrock API error: '' @ code @ py '' - '' @ msg))
                (s\<lparr>invoked := invoked s @ [x], sent := sent s @ [build_request m x]\<rparr>))" for s
    by (simp add: blr_configured [OF assms(1)] t)
  have "fst (main w inp) = Return () \<and>
        errors (snd (main w inp)) = [py ''AWS Bedrock API error: '' @ code @ py '' - '' @ msg] \<and>
        rendered (snd (main w inp)) = []"
    if go: "startup_ok w client" and p: "pressed inp (py ''Convert'')"
      and x: "statement inp = x" "x \<noteq> []"
    using p x by (simp add: main_started [OF go] convert_pressed_nonempty b observed_st)
  with b show ?thesis by blast
qed

theorem C5_provider_error_reported_witness:
  "bedrock_llama_response
       (demo_world (failing (ClientError (py ''ThrottlingException'') (py ''rate exceeded''))))
       (failing (ClientError (py ''ThrottlingException'') (py ''rate exceeded'')))
       (py ''x'') init_state =
     (Return None,
      st (Error (py ''AWS Bedrock API error: '' @ py ''ThrottlingException'' @ py '' - '' @
                 py ''rate exceeded''))
        (init_state\<lparr>invoked := invoked init_state @ [py ''x''],
           sent := sent init_state @
             [build_request (py ''meta.llama3-8b-instruct-v1:0'') (py ''x'')]\<rparr>)) \<and>
   fst (main (demo_world (failing (ClientError (py ''ThrottlingException'') (py ''rate exceeded''))))
          (submit (py ''x''))) = Return () \<and>
   errors (snd (main
       (demo_world (failing (ClientError (py ''ThrottlingException'') (py ''rate exceeded''))))
       (submit (py ''x'')))) =
     [py ''AWS Bedrock API error: '' @ py ''ThrottlingException'' @ py '' - '' @
      py ''rate exceeded'']"
proof -
  have h2: "failing (ClientError (py ''ThrottlingException'') (py ''rate exceeded''))
              (build_request (py ''meta.llama3-8b-instruct-v1:0'') (py ''x'')) =
            Raises (ClientError (py ''ThrottlingException'') (py ''rate exceeded''))"
    by (simp add: failing_def)
  have h3: "startup_ok
              (demo_world (failing (ClientError (py ''ThrottlingException'') (py ''rate exceeded''))))
              (failing (ClientError (py ''ThrottlingException'') (py ''rate exceeded''))) \<and>
            pressed (submit (py ''x'')) (py ''Convert'') \<and>
            statement (submit (py ''x'')) = py ''x'' \<and> py ''x'' \<noteq> []"
    by (simp add: demo_started submit_fields py_Cons_nonempty)
  show ?thesis
    using h3 C5_provider_error_reported
      [of "demo_world (failing (ClientError (py ''ThrottlingException'') (py ''rate exceeded'')))"
          "py ''meta.llama3-8b-instruct-v1:0''"
          "failing (ClientError (py ''ThrottlingException'') (py ''rate exceeded''))"
          "py ''x''" "py ''ThrottlingException''" "py ''rate exceeded''" init_state
          "submit (py ''x'')",
       OF demo_configured h2]
    by blast
qed

text \<open>
  C6 (as amended). An invocation of \<open>bedrock_llama_response\<close> with
  \<open>BEDROCK_MODEL_ID\<close> set and not empty issues exactly one request, whatever the
  provider does, and its body carries the prompt with \<open>max_gen_len = 300\<close>,
  \<open>temperature = 0.2\<close> and \<open>top_p = 0.95\<close>. With \<open>BEDROCK_MODEL_ID\<close> empty or absent
  it issues none.
\<close>

theorem C6_one_request_fixed_parameters:
  "(model_configured w m \<longrightarrow>
      (\<exists>req. sent (snd (bedrock_llama_response w client x s)) = sent s @ [req] \<and>
             prompt (body req) = build_prompt x \<and>
             max_gen_len (body req) = 300 \<and>
             temperature (body req) = 2 / 10 \<and>
             top_p (body req) = 95 / 100 \<and>
             modelId req = m)) \<and>
   (\<not> truthy_opt (getenv w ''BEDROCK_MODEL_ID'') \<longrightarrow>
      sent (snd (bedrock_llama_response w client x s)) = sent s)"
proof (intro conjI impI)
  assume c: "model_configured w m"
  have "sent (snd (bedrock_llama_response w client x s)) = sent s @ [build_request m x]"
    by (rule blr_sent_configured [OF c])
  moreover have "prompt (body (build_request m x)) = build_prompt x \<and>
                 max_gen_len (body (build_request m x)) = 300 \<and>
                 temperature (body (build_request m x)) = 2 / 10 \<and>
                 top_p (body (build_request m x)) = 95 / 100 \<and>
                 modelId (build_request m x) = m"
    by (simp add: build_request_def)
  ultimately show "\<exists>req. sent (snd (bedrock_llama_response w client x s)) = sent s @ [req] \<and>
             prompt (body req) = build_prompt x \<and>
             max_gen_len (body req) = 300 \<and>
             temperature (body req) = 2 / 10 \<and>
             top_p (body req) = 95 / 100 \<and>
             modelId req = m"
    by blast
next
  assume "\<not> truthy_opt (getenv w ''BEDROCK_MODEL_ID'')"
  then show "sent (snd (bedrock_llama_response w client x s)) = sent s"
    by (rule blr_sent_unconfigured)
qed

theorem C6_one_request_fixed_parameters_witness:
  "(\<exists>req. sent (snd (bedrock_llama_response (demo_world (answering JNull)) (answering JNull)
                       (py ''x'') init_state)) = sent init_state @ [req] \<and>
          prompt (body req) = build_prompt (py ''x'') \<and>
          max_gen_len (body req) = 300 \<and>
          temperature (body req) = 2 / 10 \<and>
          top_p (body req) = 95 / 100 \<and>
          modelId req = py ''meta.llama3-8b-instruct-v1:0'') \<and>
   sent (snd (bedrock_llama_response (no_model_world (answering JNull)) (answering JNull)
                (py ''x'') init_state)) = sent init_state"
proof -
  have a: "model_configured (demo_world (answering JNull)) (py ''meta.llama3-8b-instruct-v1:0'')"
    by (rule demo_configured)
  have b: "\<not> truthy_opt (getenv (no_model_world (answering JNull)) ''BEDROCK_MODEL_ID'')"
    by (simp add: getenv_no_model)
  show ?thesis
    using a b
      C6_one_request_fixed_parameters
        [of "demo_world (answering JNull)" "py ''meta.llama3-8b-instruct-v1:0''"
            "answering JNull" "py ''x''" init_state]
      C6_one_request_fixed_parameters
        [of "no_model_world (answering JNull)" "py ''meta.llama3-8b-instruct-v1:0''"
            "answering JNull" "py ''x''" init_state]
    by blast
qed

text \<open>
  C6 as stated fails: with no model identifier in the environment,
  \<open>bedrock_llama_response\<close> is invoked on the statement \<open>x\<close> and issues no request.
\<close>

theorem C6_counterexample:
  "invoked (snd (bedrock_llama_response (no_model_world (answering JNull)) (answering JNull)
                   (py ''x'') init_state)) = [py ''x''] \<and>
   sent (snd (bedrock_llama_response (no_model_world (answering JNull)) (answering JNull)
                (py ''x'') init_state)) = []"
  by (simp add: blr_invoked blr_sent_unconfigured getenv_no_model init_state_def)

text \<open>
  C7. In a run where the statement is empty, no request is issued and
  \<open>bedrock_llama_response\<close> is not invoked; when the form is on the page and Convert was
  pressed, the run shows the warning, and only that, and completes.
\<close>

theorem C7_empty_statement_no_request:
  assumes "statement inp = []"
  shows "sent (snd (main w inp)) = [] \<and> invoked (snd (main w inp)) = [] \<and>
         (startup_ok w client \<and> pressed inp (py ''Convert'') \<longrightarrow>
            fst (main w inp) = Return () \<and>
            warnings (snd (main w inp)) =
              [py ''Please enter a mathematical statement to convert.''] \<and>
            errors (snd (main w inp)) = [] \<and> rendered (snd (main w inp)) = [])"
proof -
  have quiet: "sent (snd (main w inp)) = [] \<and> invoked (snd (main w inp)) = []"
  proof -
    consider (stop) "fst (initialize_bedrock_client w (page_header init_state)) = Stop"
      | (go) c where "startup_ok w c"
      using initialize_fst_cases [of w "page_header init_state"] by blast
    then show ?thesis
    proof cases
      case stop
      then show ?thesis by (simp add: main_stopped_at_start)
    next
      case go
      show ?thesis
      proof (cases "pressed inp (py ''Convert'')")
        case True
        then show ?thesis by (simp add: main_empty [OF go True assms])
      next
        case False
        then show ?thesis by (simp add: main_idle [OF go False])
      qed
    qed
  qed
  have "fst (main w inp) = Return () \<and>
        warnings (snd (main w inp)) = [py ''Please enter a mathematical statement to convert.''] \<and>
        errors (snd (main w inp)) = [] \<and> rendered (snd (main w inp)) = []"
    if go: "startup_ok w client" and p: "pressed inp (py ''Convert'')"
    by (simp add: main_empty [OF go p assms] observed_st)
  with quiet show ?thesis by blast
qed

theorem C7_empty_statement_no_request_witness:
  "sent (snd (main (demo_world (answering JNull)) (submit []))) = [] \<and>
   invoked (snd (main (demo_world (answering JNull)) (submit []))) = [] \<and>
   warnings (snd (main (demo_world (answering JNull)) (submit []))) =
     [py ''Please enter a mathematical statement to convert.'']"
proof -
  have h: "statement (submit []) = []" by (simp add: submit_fields)
  have g: "startup_ok (demo_world (answering JNull)) (answering JNull) \<and>
           pressed (submit []) (py ''Convert'')"
    by (simp add: demo_started submit_fields)
  show ?thesis
    using g C7_empty_statement_no_request
      [OF h, of "demo_world (answering JNull)" "answering JNull"]
    by blast
qed

text \<open>
  C8: the code at a generation that is a single space. \<open>bedrock_llama_response\<close> is
  invoked and one request is sent; the run completes with no result rendered and no
  failure reported.
\<close>

theorem C8_whitespace_generation_neither:
  "invoked (snd (main (demo_world (answering (generation [32]))) (submit (py ''x'')))) =
     [py ''x''] \<and>
   length (sent (snd (main (demo_world (answering (generation [32]))) (submit (py ''x''))))) = 1 \<and>
   fst (main (demo_world (answering (generation [32]))) (submit (py ''x''))) = Return () \<and>
   rendered (snd (main (demo_world (answering (generation [32]))) (submit (py ''x'')))) = [] \<and>
   errors (snd (main (demo_world (answering (generation [32]))) (submit (py ''x'')))) = []"
proof -
  have t: "try_block (answering (generation [32])) req = Inr []" for req
    by (simp add: try_block_answering get_generation_generation strip_or_sentinel_def
          strip_def isspace_def)
  show ?thesis
    by (simp add: main_started [OF demo_started] submit_fields py_Cons_nonempty
          convert_pressed_nonempty blr_configured [OF demo_configured] t observed_st)
qed

text \<open>
  C9. The statement that is a single space is not empty and is all white space; when the
  form is on the page, the model identifier is configured and Convert is pressed on it,
  the run shows no warning and issues one request, whose prompt has that space between
  the head and the tail of the template.
\<close>

theorem C9_whitespace_statement_is_sent:
  assumes "startup_ok w client" and "model_configured w m"
    and "pressed inp (py ''Convert'')" and "statement inp = [32]"
  shows "statement inp \<noteq> [] \<and> list_all isspace (statement inp) \<and>
         warnings (snd (main w inp)) = [] \<and>
         invoked (snd (main w inp)) = [[32]] \<and>
         sent (snd (main w inp)) = [build_request m [32]] \<and>
         prompt (body (build_request m [32])) = prompt_head @ [32] @ prompt_tail"
proof -
  have ne: "statement inp \<noteq> []" using assms(4) by simp
  have sp: "list_all isspace (statement inp)" using assms(4) by (simp add: isspace_def)
  have s: "sent (snd (main w inp)) = [build_request m [32]]"
    using assms(4)
    by (simp add: main_sent_pressed [OF assms(1,3) ne] blr_sent_configured [OF assms(2)])
  have p: "prompt (body (build_request m [32])) = prompt_head @ [32] @ prompt_tail"
    by (simp add: build_request_def build_prompt_def)
  obtain r s1 where b: "bedrock_llama_response w client (statement inp)
           (st (Spinner (py ''Converting...'')) (page_form (page_header init_state))) = (r, s1)"
    by (cases "bedrock_llama_response w client (statement inp)
           (st (Spinner (py ''Converting...'')) (page_form (page_header init_state)))")
  have wn: "warnings s1 = []"
    using b
    by (auto simp: bedrock_llama_response_def Let_def observed_st
             split: option.splits sum.splits exn.splits if_splits)
  have iv: "invoked s1 = [[32]]"
    using blr_invoked [of w client "statement inp"
        "st (Spinner (py ''Converting...'')) (page_form (page_header init_state))"] b assms(4)
    by simp
  have "warnings (snd (main w inp)) = [] \<and> invoked (snd (main w inp)) = [[32]]"
    using assms(3) ne b wn iv
    by (simp add: main_started [OF assms(1)] convert_pressed_nonempty observed_st
          split: ctl.splits option.splits)
  with ne sp s p show ?thesis by simp
qed

theorem C9_whitespace_statement_is_sent_witness:
  "statement (submit [32]) \<noteq> [] \<and> list_all isspace (statement (submit [32])) \<and>
   sent (snd (main (demo_world (answering JNull)) (submit [32]))) =
     [build_request (py ''meta.llama3-8b-instruct-v1:0'') [32]] \<and>
   prompt (body (build_request (py ''meta.llama3-8b-instruct-v1:0'') [32])) =
     prompt_head @ [32] @ prompt_tail"
proof -
  have h3: "pressed (submit [32]) (py ''Convert'')" by (simp add: submit_fields)
  have h4: "statement (submit [32]) = [32]" by (simp add: submit_fields)
  show ?thesis
    using C9_whitespace_statement_is_sent [OF demo_started demo_configured h3 h4]
    by blast
qed

text \<open>
  C10. A text that \<open>bedrock_llama_response\<close> returns neither starts nor ends with white
  space: it is the sentinel, or it is \<open>strip g\<close> for the string \<open>g\<close> under
  \<open>generation\<close> in the body the provider answered with.
\<close>

theorem C10_returned_text_is_trimmed:
  assumes "bedrock_llama_response w client x s = (Return (Some r), s1)"
  shows "(r = [] \<or> (\<not> isspace (hd r) \<and> \<not> isspace (last r))) \<and>
         (r = sentinel \<or>
          (\<exists>req kvs g. client req = Body (JObj kvs) \<and>
                       map_of kvs (py ''generation'') = Some (JStr g) \<and> r = strip g))"
proof -
  have "truthy_opt (getenv w ''BEDROCK_MODEL_ID'')"
  proof (rule ccontr)
    assume n: "\<not> truthy_opt (getenv w ''BEDROCK_MODEL_ID'')"
    from blr_unconfigured [OF n, of client x s] assms show False by simp
  qed
  then obtain m where m: "getenv w ''BEDROCK_MODEL_ID'' = Some m" "m \<noteq> []"
    by (cases "getenv w ''BEDROCK_MODEL_ID''") simp_all
  then have c: "model_configured w m" by (simp add: model_configured_def)
  have "try_block client (build_request m x) = Inr r"
    using assms by (simp add: blr_configured [OF c] split: sum.splits exn.splits)
  from try_block_Inr [OF this] have
    d: "r = sentinel \<or>
        (\<exists>kvs g. client (build_request m x) = Body (JObj kvs) \<and>
                 map_of kvs (py ''generation'') = Some (JStr g) \<and> g \<noteq> [] \<and> r = strip g)" .
  then have "r = [] \<or> (\<not> isspace (hd r) \<and> \<not> isspace (last r))"
    using sentinel_ends strip_ends by auto
  moreover from d have "r = sentinel \<or>
          (\<exists>req kvs g. client req = Body (JObj kvs) \<and>
                       map_of kvs (py ''generation'') = Some (JStr g) \<and> r = strip g)"
    by blast
  ultimately show ?thesis by simp
qed

theorem C10_returned_text_is_trimmed_witness:
  "bedrock_llama_response (demo_world (answering (generation (py ''  foo  ''))))
       (answering (generation (py ''  foo  ''))) (py ''x'') init_state =
     (Return (Some (py ''foo'')),
      init_state\<lparr>invoked := [py ''x''],
        sent := [build_request (py ''meta.llama3-8b-instruct-v1:0'') (py ''x'')]\<rparr>) \<and>
   (py ''foo'' = [] \<or> (\<not> isspace (hd (py ''foo'')) \<and> \<not> isspace (last (py ''foo''))))"
proof -
  have t: "try_block (answering (generation (py ''  foo  ''))) req = Inr (py ''foo'')" for req
    by (simp add: try_block_answering get_generation_generation strip_or_sentinel_def
          strip_def isspace_def py_def)
  have h: "bedrock_llama_response (demo_world (answering (generation (py ''  foo  ''))))
       (answering (generation (py ''  foo  ''))) (py ''x'') init_state =
     (Return (Some (py ''foo'')),
      init_state\<lparr>invoked := [py ''x''],
        sent := [build_request (py ''meta.llama3-8b-instruct-v1:0'') (py ''x'')]\<rparr>)"
    by (simp add: blr_configured [OF demo_configured] t init_state_def)
  show ?thesis
    using h C10_returned_text_is_trimmed [OF h]
    by blast
qed

end
